theory Spec2Isabelle
  imports Complex_Main "HOL-Library.Word" "HOL-Library.Sublist"
begin

section \<open>Python floats\<close>

text \<open>
  The script divides integers with \<^verbatim>\<open>/\<close>, which in Python 3 yields a binary64 float, and
  truncates products of such floats with \<^verbatim>\<open>int()\<close>. A float is modelled by its exact
  value, a mantissa and a binary exponent; every operation computes the exact result and
  rounds it to 53 significant bits, ties to even. The exponent is unbounded: overflow and
  subnormals cannot occur for the magnitudes of pixel coordinates and channel values.
\<close>

type_synonym double = "int \<times> int"

function bitlen :: "int \<Rightarrow> int" where
  "bitlen n = (if n \<le> 0 then 0 else 1 + bitlen (n div 2))"
  by pat_completeness auto
termination
  by (relation "measure nat") auto

declare bitlen.simps [simp del]

definition pow2 :: "int \<Rightarrow> rat" where
  "pow2 e = (if 0 \<le> e then 2 ^ nat e else 1 / 2 ^ nat (- e))"

definition dval :: "double \<Rightarrow> rat" where
  "dval d = of_int (fst d) * pow2 (snd d)"

definition round_half_even :: "int \<Rightarrow> int \<Rightarrow> int" where
  "round_half_even num den =
     (let q = num div den; r = num mod den
      in if 2 * r < den then q
         else if den < 2 * r then q + 1
         else if even q then q else q + 1)"

text \<open>The quotient \<open>a / b\<close> of two integers, \<open>0 < b\<close>, correctly rounded.\<close>

definition fl_quot :: "int \<Rightarrow> int \<Rightarrow> double" where
  "fl_quot a b =
     (if a = 0 then (0, 0)
      else let n = \<bar>a\<bar>;
               k = bitlen n - bitlen b;
               e = (if (if 0 \<le> k then b * 2 ^ nat k \<le> n else b \<le> n * 2 ^ nat (- k))
                    then k else k - 1);
               s = 52 - e;
               m = (if 0 \<le> s then round_half_even (n * 2 ^ nat s) b
                    else round_half_even n (b * 2 ^ nat (- s)))
           in (sgn a * m, - s))"

text \<open>Rounding of the exact dyadic value \<open>m * 2 ^ e\<close>.\<close>

definition fl_dyadic :: "int \<Rightarrow> int \<Rightarrow> double" where
  "fl_dyadic m e = (if 0 \<le> e then fl_quot (m * 2 ^ nat e) 1 else fl_quot m (2 ^ nat (- e)))"

datatype error = ZeroDivisionError | ValueError

text \<open>\<^verbatim>\<open>a / b\<close> on Python integers.\<close>

definition py_truediv :: "int \<Rightarrow> int \<Rightarrow> error + double" where
  "py_truediv a b =
     (if b = 0 then Inl ZeroDivisionError
      else if b < 0 then Inr (fl_quot (- a) (- b)) else Inr (fl_quot a b))"

text \<open>\<^verbatim>\<open>i * x\<close> with \<open>i\<close> an integer and \<open>x\<close> a float: \<open>i\<close> is converted first.\<close>

definition py_mul_int :: "int \<Rightarrow> double \<Rightarrow> double" where
  "py_mul_int i x = (let (m, e) = fl_quot i 1 in fl_dyadic (m * fst x) (e + snd x))"

definition py_add :: "double \<Rightarrow> double \<Rightarrow> double" where
  "py_add x y =
     (let e = min (snd x) (snd y)
      in fl_dyadic (fst x * 2 ^ nat (snd x - e) + fst y * 2 ^ nat (snd y - e)) e)"

definition py_sub_int :: "double \<Rightarrow> int \<Rightarrow> double" where
  "py_sub_int x i = (let (m, e) = fl_quot i 1 in py_add x (- m, e))"

text \<open>\<^verbatim>\<open>int(x)\<close> truncates towards zero.\<close>

definition py_int :: "double \<Rightarrow> int" where
  "py_int x =
     (if 0 \<le> snd x then fst x * 2 ^ nat (snd x)
      else sgn (fst x) * (\<bar>fst x\<bar> div 2 ^ nat (- snd x)))"

definition py_min :: "double \<Rightarrow> double \<Rightarrow> double" where
  "py_min x y = (if dval y < dval x then y else x)"

section \<open>Images\<close>

type_synonym u8 = "8 word"
type_synonym rgba = "u8 \<times> u8 \<times> u8 \<times> u8"

text \<open>
  An image has a size and, per mode, one value for every coordinate \<open>x y\<close>; only the
  coordinates below the width and the height belong to it.
\<close>

datatype raster =
    RGBA "nat \<Rightarrow> nat \<Rightarrow> rgba"
  | RGB "nat \<Rightarrow> nat \<Rightarrow> u8 \<times> u8 \<times> u8"
  | L "nat \<Rightarrow> nat \<Rightarrow> u8"

record image =
  width :: nat
  height :: nat
  raster :: raster

definition is_RGBA :: "image \<Rightarrow> bool" where
  "is_RGBA img = (case raster img of RGBA _ \<Rightarrow> True | _ \<Rightarrow> False)"

fun rgba_of :: "raster \<Rightarrow> nat \<Rightarrow> nat \<Rightarrow> rgba" where
  "rgba_of (RGBA f) x y = f x y"
| "rgba_of (RGB f) x y = (case f x y of (r, g, b) \<Rightarrow> (r, g, b, 255))"
| "rgba_of (L f) x y = (let v = f x y in (v, v, v, 255))"

text \<open>\<^verbatim>\<open>img.convert('RGBA')\<close>\<close>

definition convert_RGBA :: "image \<Rightarrow> image" where
  "convert_RGBA img = img\<lparr>raster := RGBA (rgba_of (raster img))\<rparr>"

text \<open>\<^verbatim>\<open>Image.new('RGBA', (w, h), color)\<close>\<close>

definition Image_new :: "nat \<Rightarrow> nat \<Rightarrow> rgba \<Rightarrow> image" where
  "Image_new w h c = \<lparr>width = w, height = h, raster = RGBA (\<lambda>x y. c)\<rparr>"

definition alpha :: "rgba \<Rightarrow> u8" where
  "alpha p = (case p of (r, g, b, a) \<Rightarrow> a)"

definition rgb :: "rgba \<Rightarrow> u8 \<times> u8 \<times> u8" where
  "rgb p = (case p of (r, g, b, a) \<Rightarrow> (r, g, b))"

definition pixel :: "image \<Rightarrow> nat \<Rightarrow> nat \<Rightarrow> rgba" where
  "pixel img x y = rgba_of (raster img) x y"

section \<open>Checkerboard removal\<close>

text \<open>The channels are widened to \<^verbatim>\<open>int16\<close>, where sums and differences of bytes are exact.\<close>

definition brightness :: "int \<Rightarrow> int \<Rightarrow> int \<Rightarrow> double" where
  "brightness r g b = fl_quot (r + g + b) 3"

definition max_diff :: "int \<Rightarrow> int \<Rightarrow> int \<Rightarrow> int" where
  "max_diff r g b = max (max \<bar>r - g\<bar> \<bar>g - b\<bar>) \<bar>r - b\<bar>"

definition is_gray :: "int \<Rightarrow> int \<Rightarrow> int \<Rightarrow> bool" where
  "is_gray r g b = (max_diff r g b < 20 \<and> 180 < dval (brightness r g b))"

definition clear_gray :: "rgba \<Rightarrow> rgba" where
  "clear_gray p =
     (case p of (r, g, b, a) \<Rightarrow>
        (r, g, b, if is_gray (uint r) (uint g) (uint b) then 0 else a))"

definition remove_checkerboard_bg :: "image \<Rightarrow> image" where
  "remove_checkerboard_bg img0 =
     (let img = (if \<not> is_RGBA img0 then convert_RGBA img0 else img0);
          data = rgba_of (raster img)
      in \<lparr>width = width img, height = height img,
          raster = RGBA (\<lambda>x y. clear_gray (data x y))\<rparr>)"

section \<open>Bounding box, crop, resize and paste of the imaging library\<close>

text \<open>
  \<^verbatim>\<open>getbbox()\<close>: the smallest box containing every non-zero pixel, \<open>None\<close> when there
  is none. For a mode with an alpha band only that band counts.
\<close>

fun nonzero :: "raster \<Rightarrow> nat \<Rightarrow> nat \<Rightarrow> bool" where
  "nonzero (RGBA f) x y = (alpha (f x y) \<noteq> 0)"
| "nonzero (RGB f) x y = (f x y \<noteq> (0, 0, 0))"
| "nonzero (L f) x y = (f x y \<noteq> 0)"

definition getbbox :: "image \<Rightarrow> (nat \<times> nat \<times> nat \<times> nat) option" where
  "getbbox img =
     (let xs = filter (\<lambda>x. list_ex (\<lambda>y. nonzero (raster img) x y) [0..<height img])
                 [0..<width img];
          ys = filter (\<lambda>y. list_ex (\<lambda>x. nonzero (raster img) x y) [0..<width img])
                 [0..<height img]
      in if xs = [] \<or> ys = [] then None
         else Some (hd xs, hd ys, last xs + 1, last ys + 1))"

text \<open>
  \<^verbatim>\<open>crop((left, upper, right, lower))\<close>: a box that ends before it starts is refused; what
  lies outside the source is filled with zeros.
\<close>

definition window :: "nat \<Rightarrow> nat \<Rightarrow> int \<Rightarrow> int \<Rightarrow> 'a \<Rightarrow> (nat \<Rightarrow> nat \<Rightarrow> 'a) \<Rightarrow> nat \<Rightarrow> nat \<Rightarrow> 'a" where
  "window w h l t z f x y =
     (let sx = int x + l; sy = int y + t
      in if 0 \<le> sx \<and> sx < int w \<and> 0 \<le> sy \<and> sy < int h then f (nat sx) (nat sy) else z)"

definition crop :: "image \<Rightarrow> int \<times> int \<times> int \<times> int \<Rightarrow> error + image" where
  "crop img box =
     (case box of (l, t, r, b) \<Rightarrow>
        if r < l \<or> b < t then Inl ValueError
        else Inr \<lparr>width = nat (r - l), height = nat (b - t),
                  raster = (case raster img of
                      RGBA f \<Rightarrow> RGBA (window (width img) (height img) l t (0, 0, 0, 0) f)
                    | RGB f \<Rightarrow> RGB (window (width img) (height img) l t (0, 0, 0) f)
                    | L f \<Rightarrow> L (window (width img) (height img) l t 0 f))\<rparr>)"

text \<open>
  \<^verbatim>\<open>resize((w, h), LANCZOS)\<close>: an unchanged size gives a copy, a requested width or height
  below 1 is refused, and otherwise the pixels come from the resampling filter \<open>rs\<close>,
  which is a parameter here.
\<close>

type_synonym resampler = "image \<Rightarrow> nat \<Rightarrow> nat \<Rightarrow> raster"

definition resize :: "resampler \<Rightarrow> image \<Rightarrow> int \<times> int \<Rightarrow> error + image" where
  "resize rs img sz =
     (case sz of (nw, nh) \<Rightarrow>
        if (int (width img), int (height img)) = (nw, nh) then Inr img
        else if nw < 1 \<or> nh < 1 then Inl ValueError
        else Inr \<lparr>width = nat nw, height = nat nh, raster = rs img (nat nw) (nat nh)\<rparr>)"

text \<open>
  \<^verbatim>\<open>dest.paste(src, (x, y), mask)\<close> on an RGBA destination: inside the box every band of
  the destination is blended with the source, weighted by the mask's alpha.
\<close>

definition blend :: "u8 \<Rightarrow> u8 \<Rightarrow> u8 \<Rightarrow> u8" where
  "blend d s m =
     (let t = uint d * (255 - uint m) + uint s * uint m + 128
      in word_of_int ((t div 256 + t) div 256))"

definition blend_rgba :: "rgba \<Rightarrow> rgba \<Rightarrow> u8 \<Rightarrow> rgba" where
  "blend_rgba d s m =
     (case d of (dr, dg, db, da) \<Rightarrow>
       (case s of (sr, sg, sb, sa) \<Rightarrow>
          (blend dr sr m, blend dg sg m, blend db sb m, blend da sa m)))"

definition mask_alpha :: "raster \<Rightarrow> (nat \<Rightarrow> nat \<Rightarrow> u8) option" where
  "mask_alpha m =
     (case m of RGBA f \<Rightarrow> Some (\<lambda>x y. alpha (f x y)) | L f \<Rightarrow> Some f | RGB f \<Rightarrow> None)"

definition paste :: "image \<Rightarrow> image \<Rightarrow> int \<times> int \<Rightarrow> image \<Rightarrow> error + image" where
  "paste dest src pos msk =
     (case mask_alpha (raster msk) of
        None \<Rightarrow> Inl ValueError
      | Some ma \<Rightarrow>
          Inr (dest\<lparr>raster := RGBA (\<lambda>x y.
            let sx = int x - fst pos; sy = int y - snd pos
            in if 0 \<le> sx \<and> sx < int (width src) \<and> 0 \<le> sy \<and> sy < int (height src)
               then blend_rgba (rgba_of (raster dest) x y)
                      (rgba_of (raster src) (nat sx) (nat sy)) (ma (nat sx) (nat sy))
               else rgba_of (raster dest) x y)\<rparr>))"

section \<open>The cell cleanup pipeline\<close>

definition auto_crop_alpha :: "image \<Rightarrow> error + image" where
  "auto_crop_alpha img0 =
     (let img = (if \<not> is_RGBA img0 then convert_RGBA img0 else img0)
      in case getbbox img of
           None \<Rightarrow> Inr img
         | Some (l, t, r, b) \<Rightarrow> crop img (int l, int t, int r, int b))"

definition crop_and_center :: "resampler \<Rightarrow> image \<Rightarrow> nat \<Rightarrow> error + image" where
  "crop_and_center rs cell_img target_sz =
     (let cleaned = remove_checkerboard_bg cell_img
      in case auto_crop_alpha cleaned of
           Inl e \<Rightarrow> Inl e
         | Inr cropped \<Rightarrow>
            (let w = int (width cropped); h = int (height cropped)
             in if w = 0 \<or> h = 0
                then Inr (Image_new target_sz target_sz (0, 0, 0, 0))
                else
                 (let padding = 16;
                      max_dim = int target_sz - padding * 2
                  in case py_truediv max_dim w of
                       Inl e \<Rightarrow> Inl e
                     | Inr rw \<Rightarrow>
                        (case py_truediv max_dim h of
                           Inl e \<Rightarrow> Inl e
                         | Inr rh \<Rightarrow>
                            (let ratio = py_min rw rh;
                                 new_w = py_int (py_mul_int w ratio);
                                 new_h = py_int (py_mul_int h ratio)
                             in case resize rs cropped (new_w, new_h) of
                                  Inl e \<Rightarrow> Inl e
                                | Inr resized \<Rightarrow>
                                   (let result = Image_new target_sz target_sz (0, 0, 0, 0);
                                        paste_x = (int target_sz - new_w) div 2;
                                        paste_y = (int target_sz - new_h) div 2
                                    in paste result resized (paste_x, paste_y) resized))))))"

section \<open>Configuration tables\<close>

definition SHEETS :: "(string \<times> string list) list" where
  "SHEETS =
    [(''Gemini_Generated_Image_quvfovquvfovquvf.png'',
        [''spirit_dog'', ''chick_bird'', ''young_scale'', ''beetle'']),
     (''Gemini_Generated_Image_tt5yqbtt5yqbtt5y.png'',
        [''electric_mouse'', ''hard_crab'', ''mimic_lizard'', ''seed_ball'']),
     (''Gemini_Generated_Image_sug7njsug7njsug7.png'',
        [''jellyfish'', ''ore_giant'', ''jungle_cub'', ''sky_dragon'']),
     (''Gemini_Generated_Image_nbsvaxnbsvaxnbsv.png'',
        [''dune_bug'', ''sonic_bat'', ''snow_beast'', ''circuit_fish'']),
     (''Gemini_Generated_Image_tj9euntj9euntj9e.png'',
        [''mushroom'', ''crystal_beast'', ''nebula_fish'', ''clockwork_bird''])]"

definition COL_SUFFIXES :: "string list" where
  "COL_SUFFIXES = [''-2'', ''-a3'', ''-a4'', ''-a5'', ''-b3'', ''-b4'', ''-b5'']"

record colors =
  primary :: string
  secondary :: string
  spot :: string

definition EGG_COLORS :: "(string \<times> colors) list" where
  "EGG_COLORS =
    [(''spirit_dog'', \<lparr>primary = ''#C8B896'', secondary = ''#A08868'', spot = ''#E8D8C0''\<rparr>),
     (''chick_bird'', \<lparr>primary = ''#A0C8E8'', secondary = ''#6898C0'', spot = ''#C8E0F8''\<rparr>),
     (''young_scale'', \<lparr>primary = ''#4A90B8'', secondary = ''#2A6088'', spot = ''#78B0D0''\<rparr>),
     (''beetle'', \<lparr>primary = ''#88A848'', secondary = ''#587828'', spot = ''#A8C868''\<rparr>),
     (''electric_mouse'', \<lparr>primary = ''#E8D040'', secondary = ''#B8A020'', spot = ''#F8E878''\<rparr>),
     (''hard_crab'', \<lparr>primary = ''#B0886A'', secondary = ''#88603A'', spot = ''#D0A88A''\<rparr>),
     (''mimic_lizard'', \<lparr>primary = ''#B8B8B8'', secondary = ''#888888'', spot = ''#D8D8D8''\<rparr>),
     (''seed_ball'', \<lparr>primary = ''#68B048'', secondary = ''#408020'', spot = ''#90D070''\<rparr>),
     (''jellyfish'', \<lparr>primary = ''#88C0E8'', secondary = ''#5090C0'', spot = ''#B0D8F8''\<rparr>),
     (''ore_giant'', \<lparr>primary = ''#8888A0'', secondary = ''#585878'', spot = ''#A8A8C0''\<rparr>),
     (''jungle_cub'', \<lparr>primary = ''#58A038'', secondary = ''#387018'', spot = ''#80C060''\<rparr>),
     (''sky_dragon'', \<lparr>primary = ''#E88040'', secondary = ''#C06020'', spot = ''#F8A868''\<rparr>),
     (''dune_bug'', \<lparr>primary = ''#C8A868'', secondary = ''#987838'', spot = ''#E0C890''\<rparr>),
     (''sonic_bat'', \<lparr>primary = ''#9088B8'', secondary = ''#685898'', spot = ''#B0A8D8''\<rparr>),
     (''snow_beast'', \<lparr>primary = ''#C0D8E8'', secondary = ''#90B0C8'', spot = ''#E0F0FF''\<rparr>),
     (''circuit_fish'', \<lparr>primary = ''#4888B8'', secondary = ''#285888'', spot = ''#70A8D8''\<rparr>),
     (''mushroom'', \<lparr>primary = ''#C07848'', secondary = ''#904818'', spot = ''#E09870''\<rparr>),
     (''crystal_beast'', \<lparr>primary = ''#B090D0'', secondary = ''#8060A8'', spot = ''#D0B8E8''\<rparr>),
     (''nebula_fish'', \<lparr>primary = ''#6070B8'', secondary = ''#384090'', spot = ''#8898D8''\<rparr>),
     (''clockwork_bird'', \<lparr>primary = ''#A0A0B0'', secondary = ''#707088'', spot = ''#C0C0D0''\<rparr>)]"

section \<open>Egg icons\<close>

text \<open>The template ignores the species name; only the three colours are spliced in.\<close>

definition generate_egg_svg :: "string \<Rightarrow> colors \<Rightarrow> string" where
  \<open>generate_egg_svg species c =
     ''<svg xmlns="http://www.w3.org/2000/svg" viewBox="0 0 64 64" width="256" height="256">\<newline>''
   @ ''  <defs>\<newline>''
   @ ''    <radialGradient id="egg-grad" cx="40%" cy="35%" r="60%">\<newline>''
   @ ''      <stop offset="0%" stop-color="'' @ spot c @ ''"/>\<newline>''
   @ ''      <stop offset="60%" stop-color="'' @ primary c @ ''"/>\<newline>''
   @ ''      <stop offset="100%" stop-color="'' @ secondary c @ ''"/>\<newline>''
   @ ''    </radialGradient>\<newline>''
   @ ''    <radialGradient id="shine" cx="35%" cy="30%" r="25%">\<newline>''
   @ ''      <stop offset="0%" stop-color="white" stop-opacity="0.6"/>\<newline>''
   @ ''      <stop offset="100%" stop-color="white" stop-opacity="0"/>\<newline>''
   @ ''    </radialGradient>\<newline>''
   @ ''  </defs>\<newline>''
   @ ''  <ellipse cx="32" cy="35" rx="18" ry="23" fill="url(#egg-grad)" stroke="''
       @ secondary c @ ''" stroke-width="1.5"/>\<newline>''
   @ ''  <ellipse cx="28" cy="28" rx="8" ry="10" fill="url(#shine)"/>\<newline>''
   @ ''  <ellipse cx="38" cy="42" rx="4" ry="3" fill="'' @ spot c @ ''" opacity="0.5"/>\<newline>''
   @ ''  <ellipse cx="26" cy="44" rx="3" ry="2.5" fill="'' @ spot c @ ''" opacity="0.4"/>\<newline>''
   @ ''  <ellipse cx="36" cy="30" rx="2.5" ry="2" fill="'' @ spot c @ ''" opacity="0.3"/>\<newline>''
   @ ''</svg>''\<close>

section \<open>The run\<close>


text \<open>
  The output directory is modelled by its listing. Writing a file adds its name unless a
  file of that name is there already; each file of the old listing is removed first.
\<close>

definition write_file :: "string \<Rightarrow> string list \<Rightarrow> string list" where
  "write_file name d = (if name \<in> set d then d else d @ [name])"

definition clear_dir :: "string list \<Rightarrow> string list" where
  "clear_dir d = fold (\<lambda>f d'. removeAll f d') d d"

definition sheet_png_names :: "string \<times> string list \<Rightarrow> string list" where
  "sheet_png_names sheet_info =
     concat (map (\<lambda>row_i.
       let species = snd sheet_info ! row_i
       in map (\<lambda>col_i. species @ COL_SUFFIXES ! col_i @ ''.png'') [0..<7]) [0..<4])"

definition png_names :: "string list" where
  "png_names = concat (map sheet_png_names SHEETS)"

definition egg_outputs :: "(string \<times> string) list" where
  "egg_outputs = map (\<lambda>(species, c). (species @ ''-1.svg'', generate_egg_svg species c)) EGG_COLORS"

text \<open>
  A run that is not aborted by a failing image operation: the counters
  \<^verbatim>\<open>total_cropped\<close> and \<^verbatim>\<open>egg_count\<close> and the final listing of the output directory,
  from the listing \<open>d0\<close> found at the start (\<open>None\<close>: the directory does not exist).
\<close>

definition main :: "string list option \<Rightarrow> nat \<times> nat \<times> string list" where
  "main d0 =
     (let d1 = (case d0 of Some fs \<Rightarrow> clear_dir fs | None \<Rightarrow> []);
          (total_cropped, d2) = fold (\<lambda>name (n, d). (n + 1, write_file name d)) png_names (0, d1);
          (egg_count, d3) =
             fold (\<lambda>name (n, d). (n + 1, write_file name d)) (map fst egg_outputs) (0, d2);
          d4 = write_file ''mystery-evolution.png'' d3
      in (total_cropped, egg_count, d4))"

section \<open>Rounding error of a quotient\<close>


lemma bitlen_le: "n < 2 ^ j \<Longrightarrow> bitlen n \<le> int j"
proof (induction j arbitrary: n)
  case 0
  then show ?case by (subst bitlen.simps) simp
next
  case (Suc j)
  have "n div 2 < 2 ^ j" using Suc.prems by simp
  then have "bitlen (n div 2) \<le> int j" by (rule Suc.IH)
  then show ?case by (subst bitlen.simps) simp
qed

lemma pow2_powi: "pow2 e = 2 powi e"
  by (simp add: pow2_def power_int_def field_simps)

lemma pow2_pos: "0 < pow2 e"
  by (simp add: pow2_def)

lemma pow2_add: "pow2 (a + b) = pow2 a * pow2 b"
  by (simp add: pow2_powi power_int_add)

lemma pow2_mono: "a \<le> b \<Longrightarrow> pow2 a \<le> pow2 b"
  by (simp add: pow2_powi power_int_increasing)

lemma round_half_even_err:
  assumes "0 < den"
  shows "\<bar>of_int (round_half_even num den) - (of_int num / of_int den :: rat)\<bar> \<le> 1 / 2"
proof -
  define q r where "q = num div den" and "r = num mod den"
  define f :: rat where "f = of_int r / of_int den"
  have n: "num = q * den + r" by (simp add: q_def r_def)
  have r: "0 \<le> r" "r < den" using assms by (simp_all add: r_def)
  have dpos: "(0::rat) < of_int den" using assms by simp
  have d: "(of_int num / of_int den :: rat) = of_int q + f"
    using assms by (simp add: n f_def field_simps)
  have f0: "0 \<le> f" using r dpos by (simp add: f_def)
  have f1: "f < 1" using r dpos by (simp add: f_def)
  consider "2 * r < den" | "den < 2 * r" | "2 * r = den" by linarith
  then show ?thesis
  proof cases
    case 1
    then have "(2::rat) * of_int r < of_int den"
      using of_int_less_iff[of "2 * r" den, where 'a = rat] by simp
    then have "f \<le> 1 / 2" using dpos by (simp add: f_def field_simps)
    moreover have "round_half_even num den = q"
      using 1 by (simp add: round_half_even_def Let_def flip: q_def r_def)
    ultimately show ?thesis using f0 by (simp add: d)
  next
    case 2
    then have "(of_int den :: rat) < 2 * of_int r"
      using of_int_less_iff[of den "2 * r", where 'a = rat] by simp
    then have "1 / 2 \<le> f" using dpos by (simp add: f_def field_simps)
    moreover have "round_half_even num den = q + 1"
      using 2 by (simp add: round_half_even_def Let_def flip: q_def r_def)
    ultimately show ?thesis using f1 by (simp add: d)
  next
    case 3
    then have "(of_int den :: rat) = 2 * of_int r"
      using of_int_eq_iff[of den "2 * r", where 'a = rat] by simp
    then have "f = 1 / 2" using dpos by (simp add: f_def field_simps)
    moreover have "round_half_even num den = q \<or> round_half_even num den = q + 1"
      using 3 by (simp add: round_half_even_def Let_def flip: q_def r_def)
    ultimately show ?thesis by (auto simp: d)
  qed
qed

lemma fl_quot_err:
  assumes "0 < a" "0 < b"
  shows "\<bar>dval (fl_quot a b) - of_int a / of_int b\<bar> \<le> pow2 (snd (fl_quot a b)) / 2
         \<and> snd (fl_quot a b) \<le> bitlen a - bitlen b - 52"
proof -
  define k where "k = bitlen a - bitlen b"
  define e where "e = (if (if 0 \<le> k then b * 2 ^ nat k \<le> a else b \<le> a * 2 ^ nat (- k))
                    then k else k - 1)"
  define s where "s = 52 - e"
  define m where "m = (if 0 \<le> s then round_half_even (a * 2 ^ nat s) b
                    else round_half_even a (b * 2 ^ nat (- s)))"
  have fq: "fl_quot a b = (m, - s)"
    using assms by (simp add: fl_quot_def Let_def m_def s_def e_def k_def)
  have ek: "e \<le> k" by (simp add: e_def)
  have m: "\<bar>of_int m - (of_int a / of_int b) * pow2 s\<bar> \<le> 1 / 2"
  proof (cases "0 \<le> s")
    case True
    have ps: "pow2 s = 2 ^ nat s" using True by (simp add: pow2_def)
    have E: "(of_int (a * 2 ^ nat s) / of_int b :: rat) = (of_int a / of_int b) * pow2 s"
      by (simp add: ps)
    have M: "m = round_half_even (a * 2 ^ nat s) b" using True by (simp add: m_def)
    have "\<bar>of_int (round_half_even (a * 2 ^ nat s) b)
            - (of_int (a * 2 ^ nat s) / of_int b :: rat)\<bar> \<le> 1 / 2"
      by (rule round_half_even_err[OF assms(2)])
    then show ?thesis unfolding M E .
  next
    case False
    have ps: "pow2 s = 1 / 2 ^ nat (- s)" using False by (simp add: pow2_def)
    have E: "(of_int a / of_int (b * 2 ^ nat (- s)) :: rat) = (of_int a / of_int b) * pow2 s"
      by (simp add: ps)
    have pos: "0 < b * 2 ^ nat (- s)" using assms by simp
    have M: "m = round_half_even a (b * 2 ^ nat (- s))" using False by (simp add: m_def)
    have "\<bar>of_int (round_half_even a (b * 2 ^ nat (- s)))
            - (of_int a / of_int (b * 2 ^ nat (- s)) :: rat)\<bar> \<le> 1 / 2"
      by (rule round_half_even_err[OF pos])
    then show ?thesis unfolding M E .
  qed
  have p: "pow2 s * pow2 (- s) = 1" using pow2_add[of s "- s"] by (simp add: pow2_def)
  have "\<bar>of_int m - (of_int a / of_int b) * pow2 s\<bar> * pow2 (- s) \<le> 1 / 2 * pow2 (- s)"
    using m pow2_pos[of "- s"] by (simp only: mult_le_cancel_right_pos)
  moreover have "\<bar>of_int m - (of_int a / of_int b) * pow2 s\<bar> * pow2 (- s)
      = \<bar>of_int m * pow2 (- s) - of_int a / of_int b\<bar>"
  proof -
    have "\<bar>of_int m - (of_int a / of_int b) * pow2 s\<bar> * pow2 (- s)
      = \<bar>(of_int m - (of_int a / of_int b) * pow2 s) * pow2 (- s)\<bar>"
      using pow2_pos[of "- s"] by (simp add: abs_mult)
    also have "(of_int m - (of_int a / of_int b) * pow2 s) * pow2 (- s)
      = of_int m * pow2 (- s) - of_int a / of_int b * (pow2 s * pow2 (- s))"
      by (simp add: algebra_simps)
    finally show ?thesis by (simp add: p)
  qed
  ultimately show ?thesis using ek by (simp add: fq dval_def s_def k_def)
qed


lemma bitlen_3: "bitlen 3 = 2"
  by (simp add: bitlen.simps)

lemma fl_quot_540: "dval (fl_quot 540 3) = 180"
  by (simp add: fl_quot_def round_half_even_def bitlen.simps Let_def dval_def pow2_def)

lemma fl_quot_0: "dval (fl_quot 0 b) = 0"
  by (simp add: fl_quot_def dval_def)

lemma brightness_threshold:
  assumes "0 \<le> s" "s \<le> 765"
  shows "(180 < dval (fl_quot s 3)) = (540 < s)"
proof (cases "s = 0 \<or> s = 540")
  case True
  then show ?thesis using fl_quot_540 fl_quot_0[of 3] by auto
next
  case False
  then have pos: "0 < s" and ne: "s \<noteq> 540" using assms by auto
  have "s < 2 ^ 10" using assms by simp
  then have "bitlen s \<le> 10" using bitlen_le[of s 10] by simp
  then have x: "snd (fl_quot s 3) \<le> - 44"
    using fl_quot_err[OF pos, of 3] by (simp add: bitlen_3)
  have "pow2 (snd (fl_quot s 3)) \<le> pow2 (- 44)" by (rule pow2_mono[OF x])
  then have err: "\<bar>dval (fl_quot s 3) - of_int s / 3\<bar> \<le> pow2 (- 44) / 2"
    using fl_quot_err[OF pos, of 3] by simp
  have "pow2 (- 44) / 2 \<le> 1 / 10" by (simp add: pow2_def)
  with err have err: "\<bar>dval (fl_quot s 3) - of_int s / 3\<bar> \<le> 1 / 10" by linarith
  show ?thesis
  proof (cases "540 < s")
    case True
    then have "(541::rat) \<le> of_int s" by linarith
    then have "(541::rat) / 3 \<le> of_int s / 3" by simp
    then have "180 < dval (fl_quot s 3)" using err by linarith
    then show ?thesis using True by simp
  next
    case False
    then have "s \<le> 539" using ne by simp
    then have "(of_int s :: rat) \<le> 539" by linarith
    then have "(of_int s :: rat) / 3 \<le> 539 / 3" by simp
    then have "dval (fl_quot s 3) < 180" using err by linarith
    then show ?thesis using False by simp
  qed
qed

lemma is_gray_int:
  assumes "0 \<le> r" "r \<le> 255" "0 \<le> g" "g \<le> 255" "0 \<le> b" "b \<le> 255"
  shows "is_gray r g b = (max_diff r g b < 20 \<and> 180 < (of_int (r + g + b) :: rat) / 3)"
proof -
  have "(180 < dval (fl_quot (r + g + b) 3)) = (540 < r + g + b)"
    using assms by (intro brightness_threshold) auto
  moreover have "(180 < (of_int (r + g + b) :: rat) / 3) = (540 < r + g + b)"
  proof -
    have "(180 < (of_int (r + g + b) :: rat) / 3) = ((540::rat) < of_int (r + g + b))"
      by (simp add: field_simps)
    also have "\<dots> = (540 < r + g + b)"
      using of_int_less_iff[of 540 "r + g + b", where 'a = rat] by simp
    finally show ?thesis .
  qed
  ultimately show ?thesis by (simp add: is_gray_def brightness_def)
qed

lemma uint_byte: "0 \<le> uint (w::u8) \<and> uint w \<le> 255"
  using uint_lt2p[of w] by simp

lemma is_gray_iff:
  "is_gray (uint (r::u8)) (uint (g::u8)) (uint (b::u8)) =
     (max_diff (uint r) (uint g) (uint b) < 20
      \<and> 180 < (of_int (uint r + uint g + uint b) :: rat) / 3)"
  using uint_byte[of r] uint_byte[of g] uint_byte[of b] by (intro is_gray_int) auto

section \<open>Properties of checkerboard removal\<close>

lemma pixel_convert_RGBA: "pixel (convert_RGBA img) x y = pixel img x y"
  by (simp add: pixel_def convert_RGBA_def)

lemma pixel_remove_checkerboard_bg:
  "pixel (remove_checkerboard_bg img) x y = clear_gray (pixel img x y)"
  by (simp add: remove_checkerboard_bg_def pixel_def convert_RGBA_def Let_def)

lemma size_remove_checkerboard_bg:
  "width (remove_checkerboard_bg img) = width img"
  "height (remove_checkerboard_bg img) = height img"
  by (simp_all add: remove_checkerboard_bg_def convert_RGBA_def Let_def)

lemma is_RGBA_remove_checkerboard_bg: "is_RGBA (remove_checkerboard_bg img)"
  by (simp add: remove_checkerboard_bg_def is_RGBA_def Let_def)

lemma clear_gray_idem: "clear_gray (clear_gray p) = clear_gray p"
  by (cases p) (simp add: clear_gray_def)

lemma pixel_Image_new: "pixel (Image_new w h c) x y = c"
  by (simp add: pixel_def Image_new_def)


text \<open>
  Claim C9. Checkerboard removal keeps the size of the image and the red, green and blue
  values of every pixel, and a pixel that is not gray (largest channel difference at least
  20, or mean at most 180) keeps its alpha as well.
\<close>

theorem checkerboard_only_alpha:
  assumes "pixel img x y = (r, g, b, a)"
  shows "width (remove_checkerboard_bg img) = width img
       \<and> height (remove_checkerboard_bg img) = height img
       \<and> rgb (pixel (remove_checkerboard_bg img) x y) = (r, g, b)
       \<and> (20 \<le> max_diff (uint r) (uint g) (uint b)
            \<or> (of_int (uint r + uint g + uint b) :: rat) / 3 \<le> 180
          \<longrightarrow> pixel (remove_checkerboard_bg img) x y = (r, g, b, a))"
  using assms
  by (auto simp: size_remove_checkerboard_bg pixel_remove_checkerboard_bg clear_gray_def
        rgb_def is_gray_iff)

theorem checkerboard_only_alpha_witness:
  "pixel (Image_new 2 2 (200, 50, 50, 255)) 0 0 = (200, 50, 50, 255)
   \<and> 20 \<le> max_diff (uint (200::u8)) (uint (50::u8)) (uint (50::u8))
   \<and> pixel (remove_checkerboard_bg (Image_new 2 2 (200, 50, 50, 255))) 0 0
       = (200, 50, 50, 255)"
  using checkerboard_only_alpha[of "Image_new 2 2 (200, 50, 50, 255)" 0 0 200 50 50 255]
  by (simp add: pixel_Image_new max_diff_def)

text \<open>
  Claim C10. Checkerboard removal is idempotent: a second application changes nothing.
\<close>

theorem checkerboard_idempotent:
  "remove_checkerboard_bg (remove_checkerboard_bg img) = remove_checkerboard_bg img"
  by (simp add: remove_checkerboard_bg_def is_RGBA_def Let_def clear_gray_idem)

section \<open>The files of a run\<close>

lemma fold_removeAll: "fold (\<lambda>f d'. removeAll f d') xs ys = filter (\<lambda>y. y \<notin> set xs) ys"
  by (induction xs arbitrary: ys) (auto simp: removeAll_filter_not_eq intro: filter_cong)

lemma clear_dir_empty: "clear_dir d = []"
  by (simp add: clear_dir_def fold_removeAll)

lemma fold_write_file:
  "distinct xs \<Longrightarrow> set xs \<inter> set d = {} \<Longrightarrow>
   fold (\<lambda>name (n, d). (n + 1, write_file name d)) xs (k, d) = (k + length xs, d @ xs)"
proof (induction xs arbitrary: k d)
  case Nil
  then show ?case by simp
next
  case (Cons x xs)
  have "write_file x d = d @ [x]" using Cons.prems by (simp add: write_file_def)
  moreover have "set xs \<inter> set (d @ [x]) = {}" using Cons.prems by auto
  ultimately show ?case using Cons.IH[of "d @ [x]" "k + 1"] Cons.prems by simp
qed

lemma png_names_eval:
  "png_names = map (\<lambda>(s, suf). s @ suf @ ''.png'') (List.product (concat (map snd SHEETS)) COL_SUFFIXES)"
  by (simp add: png_names_def sheet_png_names_def SHEETS_def COL_SUFFIXES_def upt_rec)

lemma all_names_distinct:
  "distinct (png_names @ map fst egg_outputs @ [''mystery-evolution.png''])"
  by (simp add: png_names_def sheet_png_names_def SHEETS_def COL_SUFFIXES_def upt_rec
       egg_outputs_def EGG_COLORS_def)


lemma png_names_length: "length png_names = 140"
  by (simp add: png_names_eval SHEETS_def COL_SUFFIXES_def)

lemma egg_names: "map fst egg_outputs = map (\<lambda>s. s @ ''-1.svg'') (map fst EGG_COLORS)"
  by (simp add: egg_outputs_def split_def comp_def)

lemma egg_names_length: "length (map fst egg_outputs) = 20"
  by (simp add: egg_outputs_def EGG_COLORS_def)

lemma main_listing:
  "main d0 = (140, 20, png_names @ map fst egg_outputs @ [''mystery-evolution.png''])"
proof -
  have d1: "(case d0 of Some fs \<Rightarrow> clear_dir fs | None \<Rightarrow> []) = []"
    by (simp add: clear_dir_empty split: option.split)
  have dp: "distinct png_names" using all_names_distinct by simp
  have de: "distinct (map fst egg_outputs)" using all_names_distinct by simp
  have ie: "set (map fst egg_outputs) \<inter> set png_names = {}"
    using all_names_distinct by auto
  have m: "''mystery-evolution.png'' \<notin> set (png_names @ map fst egg_outputs)"
    using all_names_distinct by auto
  have f1: "fold (\<lambda>name (n, d). (n + 1, write_file name d)) png_names (0::nat, [])
      = (140, png_names)"
  proof -
    have "set png_names \<inter> set ([]::string list) = {}" by simp
    from fold_write_file[OF dp this, of 0] show ?thesis
      by (simp only: png_names_length append_Nil add_0)
  qed
  have f2: "fold (\<lambda>name (n, d). (n + 1, write_file name d)) (map fst egg_outputs)
        (0::nat, png_names)
      = (20, png_names @ map fst egg_outputs)"
    using fold_write_file[OF de ie, of 0] by (simp only: egg_names_length add_0)
  have f3: "write_file ''mystery-evolution.png'' (png_names @ map fst egg_outputs)
      = png_names @ map fst egg_outputs @ [''mystery-evolution.png'']"
    using m by (simp add: write_file_def)
  show ?thesis
    unfolding main_def d1 Let_def f1 prod.case f2 f3 ..
qed

text \<open>
  Claim C2. A run writes one PNG per pair of a sheet species and a column suffix, named
  by their concatenation with \<open>.png\<close>: 140 names, all different (the 20 species are
  pairwise distinct, and so are the 7 suffixes). With the 20 egg files, named by the
  species with \<open>-1.svg\<close>, and \<open>mystery-evolution.png\<close>, the output directory holds
  exactly 161 different files afterwards, whatever it held before.
\<close>

theorem main_output_files:
  "(case main d0 of (total_cropped, egg_count, listing) \<Rightarrow>
      total_cropped = 140 \<and> egg_count = 20
      \<and> listing = png_names @ map fst egg_outputs @ [''mystery-evolution.png'']
      \<and> distinct listing \<and> length listing = 161)
   \<and> png_names = map (\<lambda>(species, suffix). species @ suffix @ ''.png'')
                     (List.product (concat (map snd SHEETS)) COL_SUFFIXES)
   \<and> length (concat (map snd SHEETS)) = 20 \<and> distinct (concat (map snd SHEETS))
   \<and> length COL_SUFFIXES = 7 \<and> distinct COL_SUFFIXES
   \<and> length png_names = 140 \<and> distinct png_names
   \<and> map fst egg_outputs = map (\<lambda>species. species @ ''-1.svg'') (concat (map snd SHEETS))"
proof -
  have "distinct png_names" using all_names_distinct by simp
  moreover have "length (png_names @ map fst egg_outputs @ [''mystery-evolution.png'']) = 161"
    by (simp add: png_names_length egg_names_length del: length_map)
  moreover have "length (concat (map snd SHEETS)) = 20 \<and> distinct (concat (map snd SHEETS))"
    by (simp add: SHEETS_def)
  moreover have "length COL_SUFFIXES = 7 \<and> distinct COL_SUFFIXES"
    by (simp add: COL_SUFFIXES_def)
  moreover have "map fst egg_outputs = map (\<lambda>species. species @ ''-1.svg'') (concat (map snd SHEETS))"
    by (simp add: egg_outputs_def EGG_COLORS_def SHEETS_def)
  ultimately show ?thesis
    using all_names_distinct png_names_eval png_names_length
    by (simp only: main_listing prod.case simp_thms)
qed

text \<open>
  Claim C7, as stated, asks for palette species beyond those of the sheets. There are
  none: the species of the sheets are not a proper subset of the palette's.
\<close>

theorem palette_strict_superset_counterexample:
  "\<not> set (concat (map snd SHEETS)) \<subset> set (map fst EGG_COLORS)"
  by (simp add: SHEETS_def EGG_COLORS_def)

text \<open>
  Claim C7, amended. The palette has 20 entries with pairwise distinct species, which are
  exactly the species of the five sheets; one egg file per palette entry is written,
  computed from the palette alone, and all of them are in the output directory after a
  run.
\<close>

theorem palette_covers_sheet_species:
  "length EGG_COLORS = 20 \<and> distinct (map fst EGG_COLORS)
   \<and> set (map fst EGG_COLORS) = set (concat (map snd SHEETS))
   \<and> map fst egg_outputs = map (\<lambda>species. species @ ''-1.svg'') (map fst EGG_COLORS)
   \<and> set (map fst egg_outputs) \<subseteq> set (snd (snd (main d0)))"
proof -
  have "length EGG_COLORS = 20 \<and> distinct (map fst EGG_COLORS)"
    by (simp add: EGG_COLORS_def)
  moreover have "set (map fst EGG_COLORS) = set (concat (map snd SHEETS))"
    by (simp add: SHEETS_def EGG_COLORS_def)
  moreover have "set (map fst egg_outputs) \<subseteq> set (snd (snd (main d0)))"
    by (auto simp: main_listing)
  ultimately show ?thesis using egg_names by simp
qed


text \<open>
  Claim C8. The palette entry of \<open>spirit_dog\<close> is primary #C8B896, secondary #A08868,
  spot #E8D8C0, and the document generated from it contains the gradient \<open>egg-grad\<close>
  with the stops spot at 0%, primary at 60% and secondary at 100%, in this order.
\<close>

theorem egg_svg_spirit_dog_gradient:
  \<open>map_of EGG_COLORS ''spirit_dog''
      = Some \<lparr>primary = ''#C8B896'', secondary = ''#A08868'', spot = ''#E8D8C0''\<rparr>
   \<and> sublist
       (''<radialGradient id="egg-grad" cx="40%" cy="35%" r="60%">\<newline>''
        @ ''      <stop offset="0%" stop-color="#E8D8C0"/>\<newline>''
        @ ''      <stop offset="60%" stop-color="#C8B896"/>\<newline>''
        @ ''      <stop offset="100%" stop-color="#A08868"/>\<newline>''
        @ ''    </radialGradient>'')
       (generate_egg_svg ''spirit_dog''
          \<lparr>primary = ''#C8B896'', secondary = ''#A08868'', spot = ''#E8D8C0''\<rparr>)\<close>
proof
  show \<open>map_of EGG_COLORS ''spirit_dog''
      = Some \<lparr>primary = ''#C8B896'', secondary = ''#A08868'', spot = ''#E8D8C0''\<rparr>\<close>
    by (simp add: EGG_COLORS_def)
  have \<open>generate_egg_svg ''spirit_dog''
          \<lparr>primary = ''#C8B896'', secondary = ''#A08868'', spot = ''#E8D8C0''\<rparr>
      = (''<svg xmlns="http://www.w3.org/2000/svg" viewBox="0 0 64 64" width="256" height="256">\<newline>''
          @ ''  <defs>\<newline>'' @ ''    '')
        @ (''<radialGradient id="egg-grad" cx="40%" cy="35%" r="60%">\<newline>''
          @ ''      <stop offset="0%" stop-color="#E8D8C0"/>\<newline>''
          @ ''      <stop offset="60%" stop-color="#C8B896"/>\<newline>''
          @ ''      <stop offset="100%" stop-color="#A08868"/>\<newline>''
          @ ''    </radialGradient>'')
        @ (''\<newline>''
          @ ''    <radialGradient id="shine" cx="35%" cy="30%" r="25%">\<newline>''
          @ ''      <stop offset="0%" stop-color="white" stop-opacity="0.6"/>\<newline>''
          @ ''      <stop offset="100%" stop-color="white" stop-opacity="0"/>\<newline>''
          @ ''    </radialGradient>\<newline>''
          @ ''  </defs>\<newline>''
          @ ''  <ellipse cx="32" cy="35" rx="18" ry="23" fill="url(#egg-grad)" stroke="#A08868" stroke-width="1.5"/>\<newline>''
          @ ''  <ellipse cx="28" cy="28" rx="8" ry="10" fill="url(#shine)"/>\<newline>''
          @ ''  <ellipse cx="38" cy="42" rx="4" ry="3" fill="#E8D8C0" opacity="0.5"/>\<newline>''
          @ ''  <ellipse cx="26" cy="44" rx="3" ry="2.5" fill="#E8D8C0" opacity="0.4"/>\<newline>''
          @ ''  <ellipse cx="36" cy="30" rx="2.5" ry="2" fill="#E8D8C0" opacity="0.3"/>\<newline>''
          @ ''</svg>'')\<close>
    by (simp add: generate_egg_svg_def)
  then show \<open>sublist
       (''<radialGradient id="egg-grad" cx="40%" cy="35%" r="60%">\<newline>''
        @ ''      <stop offset="0%" stop-color="#E8D8C0"/>\<newline>''
        @ ''      <stop offset="60%" stop-color="#C8B896"/>\<newline>''
        @ ''      <stop offset="100%" stop-color="#A08868"/>\<newline>''
        @ ''    </radialGradient>'')
       (generate_egg_svg ''spirit_dog''
          \<lparr>primary = ''#C8B896'', secondary = ''#A08868'', spot = ''#E8D8C0''\<rparr>)\<close>
    by (simp only: sublist_appendI)
qed

section \<open>The cleanup pipeline on degenerate cells\<close>

lemmas fl_eval = fl_quot_def fl_dyadic_def round_half_even_def bitlen.simps Let_def dval_def
  pow2_def py_truediv_def py_mul_int_def py_int_def py_min_def py_add_def py_sub_int_def

lemma getbbox_None:
  assumes "\<forall>x<width img. \<forall>y<height img. \<not> nonzero (raster img) x y"
  shows "getbbox img = None"
proof -
  have "filter (\<lambda>x. list_ex (\<lambda>y. nonzero (raster img) x y) [0..<height img]) [0..<width img] = []"
    using assms by (auto simp: filter_empty_conv list_ex_iff)
  then show ?thesis by (simp add: getbbox_def)
qed

lemma getbbox_const:
  "getbbox \<lparr>width = w, height = h, raster = RGBA (\<lambda>x y. c)\<rparr> =
     (if alpha c = 0 \<or> w = 0 \<or> h = 0 then None else Some (0, 0, w, h))"
proof (cases "alpha c = 0 \<or> w = 0 \<or> h = 0")
  case True
  then show ?thesis by (auto intro!: getbbox_None)
next
  case False
  then have "list_ex (\<lambda>y. alpha c \<noteq> 0) [0..<h]" "list_ex (\<lambda>x. alpha c \<noteq> 0) [0..<w]"
    by (auto simp: list_ex_iff)
  then show ?thesis using False by (simp add: getbbox_def)
qed

lemma remove_checkerboard_bg_new:
  "remove_checkerboard_bg (Image_new w h c) = Image_new w h (clear_gray c)"
  by (simp add: remove_checkerboard_bg_def Image_new_def is_RGBA_def)

lemma thin_scale:
  "py_truediv 224 448 = Inr (4503599627370496, - 53)"
  "py_truediv 224 1 = Inr (7881299347898368, - 45)"
  by (simp_all add: fl_eval)

lemma thin_new_size:
  "py_int (py_mul_int 448 (py_min (4503599627370496, - 53) (7881299347898368, - 45))) = 224"
  "py_int (py_mul_int 1 (py_min (4503599627370496, - 53) (7881299347898368, - 45))) = 0"
  by (simp_all add: fl_eval)


lemma clear_gray_opaque_red: "clear_gray (255, 0, 0, 255) = (255, 0, 0, 255)"
  by (simp add: clear_gray_def is_gray_def max_diff_def)

lemma clear_gray_transparent: "clear_gray (0, 0, 0, 0) = (0, 0, 0, 0)"
  by (simp add: clear_gray_def)





text \<open>Whenever the pipeline returns, the result is a square RGBA image of the target size.\<close>

lemma crop_and_center_result:
  assumes "crop_and_center rs cell_img t = Inr res"
  shows "width res = t \<and> height res = t \<and> is_RGBA res"
  using assms
  by (auto simp: crop_and_center_def Let_def paste_def Image_new_def is_RGBA_def
      split: sum.splits if_splits option.splits)

lemma crop_and_center_thin:
  assumes "clear_gray c = c"
  shows "crop_and_center rs (Image_new 448 1 c) 256 = Inl ValueError"
proof -
  have cl: "remove_checkerboard_bg (Image_new 448 1 c) = Image_new 448 1 c"
    by (simp add: remove_checkerboard_bg_new assms)
  have "\<exists>cropped. auto_crop_alpha (Image_new 448 1 c) = Inr cropped
      \<and> width cropped = 448 \<and> height cropped = 1"
    by (simp add: auto_crop_alpha_def Image_new_def is_RGBA_def getbbox_const crop_def)
  then obtain cropped where cr: "auto_crop_alpha (Image_new 448 1 c) = Inr cropped"
    and sz: "width cropped = 448" "height cropped = 1" by blast
  have rz: "resize rs cropped (224, 0) = Inl ValueError"
    by (simp add: resize_def sz)
  show ?thesis
    unfolding crop_and_center_def Let_def cl cr
    by (simp add: sz thin_scale thin_new_size rz)
qed

text \<open>
  Claim C1 fails on the code: for an opaque red cell 448 pixels wide and 1 pixel high the
  scaled height is \<open>int(1 * 0.5) = 0\<close>, the resize is refused, and no image is returned.
\<close>

theorem crop_and_center_opaque_sliver_raises:
  "crop_and_center rs (Image_new 448 1 (255, 0, 0, 255)) 256 = Inl ValueError"
  by (rule crop_and_center_thin[OF clear_gray_opaque_red])

text \<open>
  Claim C3 fails on the code for the same reason: a fully transparent cell 448 pixels wide
  and 1 pixel high keeps its size in the bounding-box step and is then refused by the
  resize.
\<close>

theorem crop_and_center_transparent_sliver_raises:
  "crop_and_center rs (Image_new 448 1 (0, 0, 0, 0)) 256 = Inl ValueError"
  by (rule crop_and_center_thin[OF clear_gray_transparent])

section \<open>The cell rectangle\<close>

subsection \<open>The exponent chosen by the rounding\<close>





lemma pow2_nat: "pow2 (int n) = 2 ^ n"
  by (simp add: pow2_def)






subsection \<open>Representable quotients are exact\<close>


lemma pos_mantissa: "(0::rat) < of_int M * pow2 E \<Longrightarrow> 0 < M"
  using pow2_pos[of E] by (metis zero_less_mult_pos2 of_int_0_less_iff)



lemma dval_neg: "dval (- m, e) = - dval (m, e)"
  by (simp add: dval_def)







subsection \<open>The operations by their values\<close>












subsection \<open>Rows: every intermediate value is exact\<close>









subsection \<open>Columns: the error stays below the distance to the next integer\<close>












subsection \<open>The four edges\<close>






end
